theory Spec2Isabelle
  imports Main
begin

section \<open>Command-line parsing (src/auth-server.ts, parseAuthServerArgs)\<close>

text \<open>
  JavaScript's \<open>s.startsWith(p)\<close>: the first \<open>length p\<close> characters of \<open>s\<close> are \<open>p\<close>.
\<close>

definition startsWith :: "string \<Rightarrow> string \<Rightarrow> bool" where
  "startsWith s p \<longleftrightarrow> take (length p) s = p"

text \<open>
  The \<open>for\<close> loop of \<open>parseAuthServerArgs\<close>, with its index \<open>i\<close> and the variable
  \<open>credentialsPath\<close>. \<open>console.error(msg); process.exit(1)\<close> ends the process inside
  the loop: the result \<open>Inl (msg, 1)\<close>. Falling out of the loop returns
  \<open>credentialsPath\<close>, \<open>None\<close> standing for \<open>undefined\<close>.
\<close>

function parseLoop :: "string list \<Rightarrow> nat \<Rightarrow> string option \<Rightarrow> (string \<times> nat) + string option" where
  "parseLoop args i credentialsPath =
     (if i < length args then
        (if args ! i = ''--credentials-file'' then
           (if i + 1 < length args \<and> \<not> startsWith (args ! (i + 1)) ''--''
            then parseLoop args (i + 2) (Some (args ! (i + 1)))
            else Inl (''Option '' @ args ! i @ '' requires a value'', 1))
         else parseLoop args (i + 1) credentialsPath)
      else Inr credentialsPath)"
  by pat_completeness auto
termination
  by (relation "measure (\<lambda>(args, i, c). length args - i)") auto

declare parseLoop.simps [simp del]

text \<open>\<open>process.argv.slice(2)\<close> drops the interpreter and the script path.\<close>

definition parseAuthServerArgs :: "string list \<Rightarrow> (string \<times> nat) + string option" where
  "parseAuthServerArgs argv = parseLoop (drop 2 argv) 0 None"

text \<open>
  The same loop by recursion on the arguments still to be read; used in the proofs only,
  after \<open>parseLoop\<close> is shown equal to it.
\<close>

fun parseRest :: "string list \<Rightarrow> string option \<Rightarrow> (string \<times> nat) + string option" where
  "parseRest [] credentialsPath = Inr credentialsPath"
| "parseRest [arg] credentialsPath =
     (if arg = ''--credentials-file''
      then Inl (''Option '' @ arg @ '' requires a value'', 1)
      else Inr credentialsPath)"
| "parseRest (arg # next # rest) credentialsPath =
     (if arg = ''--credentials-file'' then
        (if \<not> startsWith next ''--'' then parseRest rest (Some next)
         else Inl (''Option '' @ arg @ '' requires a value'', 1))
      else parseRest (next # rest) credentialsPath)"

text \<open>Every \<open>--credentials-file\<close> of the list is followed by an argument that does not
  start with \<open>--\<close>.\<close>

fun everyOptionHasValue :: "string list \<Rightarrow> bool" where
  "everyOptionHasValue [] = True"
| "everyOptionHasValue [arg] = (arg \<noteq> ''--credentials-file'')"
| "everyOptionHasValue (arg # next # rest) =
     ((if arg = ''--credentials-file'' then \<not> startsWith next ''--'' else True)
      \<and> everyOptionHasValue (next # rest))"

section \<open>The orchestrator (src/auth-server.ts, runAuthServer and the module body)\<close>

text \<open>
  What an awaited call of a collaborator does: it returns a value or throws.
  \<open>Throws (Some m)\<close> is an \<open>Error\<close> with message \<open>m\<close>, \<open>Throws None\<close> any other
  thrown value.
\<close>

datatype 'a result = Returns 'a | Throws "string option"

text \<open>The calls the orchestrator makes on the outside world, in the order it makes them.\<close>

datatype action =
    ConsoleError string
  | StderrWrite string
  | ProcessExit nat
  | SetCredentialsPath string
  | InitializeOAuth2Client
  | NewAuthServer
  | AuthServerStart bool
  | AuthServerStop
  | SetInterval nat
  | ClearInterval
  | OnSIGINT

text \<open>How the process ended: \<open>process.exit(code)\<close>, or the default disposition of SIGINT
  when no handler is installed.\<close>

datatype ending = Exit nat | KilledBySIGINT

text \<open>The code that waits on a pending \<open>await authServer.stop()\<close>.\<close>

datatype continuation = PollCallback | SigintHandler | CatchBlock

record process =
  trace :: "action list"
  ended :: "ending option"
  pollInterval :: "nat option"
  sigintHandler :: bool
  awaiting :: "continuation list"

definition initialProcess :: process where
  "initialProcess =
     \<lparr>trace = [], ended = None, pollInterval = None, sigintHandler = False, awaiting = []\<rparr>"

definition emit :: "action list \<Rightarrow> process \<Rightarrow> process" where
  "emit as p = p\<lparr>trace := trace p @ as\<rparr>"

definition processExit :: "nat \<Rightarrow> process \<Rightarrow> process" where
  "processExit code p = p\<lparr>trace := trace p @ [ProcessExit code], ended := Some (Exit code)\<rparr>"

text \<open>\<open>error instanceof Error ? error.message : 'Unknown error'\<close>\<close>

definition errorMessage :: "string option \<Rightarrow> string" where
  "errorMessage e = (case e of Some m \<Rightarrow> m | None \<Rightarrow> ''Unknown error'')"

definition failedMessage :: string where
  "failedMessage = ''Authentication failed. Could not start server or validate existing tokens. Check port availability (3000-3004) and try again.'' @ [CHR 0x0A]"

definition successMessage :: string where
  "successMessage = ''Authentication successful.'' @ [CHR 0x0A]"

definition startedMessage :: string where
  "startedMessage = ''Authentication server started. Please complete the authentication in your browser...'' @ [CHR 0x0A]"

definition stoppedMessage :: string where
  "stoppedMessage = ''Authentication successful. Server stopped.'' @ [CHR 0x0A]"

text \<open>
  The collaborators of one run: what \<open>initializeOAuth2Client()\<close> does, what
  \<open>new AuthServer(oauth2Client)\<close> does, and what \<open>authServer.start(true)\<close> does: the
  boolean it resolves to, paired with the value of \<open>authServer.authCompletedSuccessfully\<close>
  read right after it.
\<close>

record environment =
  initializeOAuth2Client :: "unit result"
  newAuthServer :: "unit result"
  authServerStart :: "(bool \<times> bool) result"

text \<open>
  The \<open>catch\<close> block of \<open>runAuthServer\<close>. \<open>authServer\<close> is still \<open>null\<close> when the error
  came before the constructor returned; otherwise \<open>stop()\<close> is awaited before the exit.
\<close>

definition catchBlock :: "string option \<Rightarrow> bool \<Rightarrow> process \<Rightarrow> process" where
  "catchBlock e authServerSet p =
     (let p1 = emit [StderrWrite (''Authentication error: '' @ errorMessage e @ [CHR 0x0A])] p
      in if authServerSet
         then (emit [AuthServerStop] p1)\<lparr>awaiting := awaiting p1 @ [CatchBlock]\<rparr>
         else processExit 1 p1)"

text \<open>
  \<open>runAuthServer\<close> up to the point where it has nothing left to run: it has exited, or it
  waits for \<open>stop()\<close> in the \<open>catch\<close> block, or it has installed the poll (every 1000 ms)
  and the SIGINT handler and waits for events.
\<close>

definition runAuthServer :: "environment \<Rightarrow> process \<Rightarrow> process" where
  "runAuthServer env p =
     (case initializeOAuth2Client env of
        Throws e \<Rightarrow> catchBlock e False (emit [InitializeOAuth2Client] p)
      | Returns _ \<Rightarrow>
         (case newAuthServer env of
            Throws e \<Rightarrow> catchBlock e False (emit [InitializeOAuth2Client, NewAuthServer] p)
          | Returns _ \<Rightarrow>
             (let p1 = emit [InitializeOAuth2Client, NewAuthServer, AuthServerStart True] p
              in case authServerStart env of
                   Throws e \<Rightarrow> catchBlock e True p1
                 | Returns (success, authCompletedSuccessfully) \<Rightarrow>
                     if \<not> success \<and> \<not> authCompletedSuccessfully
                     then processExit 1 (emit [StderrWrite failedMessage] p1)
                     else if authCompletedSuccessfully
                     then processExit 0 (emit [StderrWrite successMessage] p1)
                     else (emit [StderrWrite startedMessage, SetInterval 1000, OnSIGINT] p1)
                            \<lparr>pollInterval := Some 1000, sigintHandler := True\<rparr>)))"

text \<open>
  Modelled from the spec: how an awaited \<open>AuthServer.stop()\<close> ends. \<open>stop()\<close> is in
  \<open>./auth/server.js\<close>, which is not among the sources; the spec has it "Never throws;
  logs/reports but always returns", so a pending \<open>stop()\<close> only ever resolves, and when
  it does is up to the event loop. The \<open>.catch\<close> handler of the module body
  ("Unhandled error") is then never run: \<open>runAuthServer\<close> rejects only when its
  \<open>catch\<close> block throws.

  What the event loop delivers once \<open>runAuthServer\<close> has returned: \<open>Tick flag\<close>, the
  interval timer fires and the callback reads \<open>authServer.authCompletedSuccessfully\<close> as
  \<open>flag\<close>; \<open>SIGINT\<close>; and \<open>StopSettled n\<close>, the \<open>n\<close>-th pending \<open>stop()\<close> promise
  resolves.
\<close>

datatype event = Tick bool | SIGINT | StopSettled nat

text \<open>The code after \<open>await authServer.stop()\<close> in each of the three places.\<close>

definition resume :: "continuation \<Rightarrow> process \<Rightarrow> process" where
  "resume k p =
     (case k of
        PollCallback \<Rightarrow> processExit 0 (emit [StderrWrite stoppedMessage] p)
      | SigintHandler \<Rightarrow> processExit 0 p
      | CatchBlock \<Rightarrow> processExit 1 p)"

definition removeNth :: "nat \<Rightarrow> 'a list \<Rightarrow> 'a list" where
  "removeNth n xs = take n xs @ drop (Suc n) xs"

definition step :: "event \<Rightarrow> process \<Rightarrow> process" where
  "step ev p =
     (if ended p \<noteq> None then p
      else case ev of
        Tick flag \<Rightarrow>
          if pollInterval p \<noteq> None \<and> flag
          then (emit [ClearInterval, AuthServerStop] p)
                 \<lparr>pollInterval := None, awaiting := awaiting p @ [PollCallback]\<rparr>
          else p
      | SIGINT \<Rightarrow>
          if sigintHandler p
          then (emit [ClearInterval, AuthServerStop] p)
                 \<lparr>pollInterval := None, awaiting := awaiting p @ [SigintHandler]\<rparr>
          else p\<lparr>ended := Some KilledBySIGINT\<rparr>
      | StopSettled n \<Rightarrow>
          if n < length (awaiting p)
          then resume (awaiting p ! n) (p\<lparr>awaiting := removeNth n (awaiting p)\<rparr>)
          else p)"

fun run :: "event list \<Rightarrow> process \<Rightarrow> process" where
  "run [] p = p"
| "run (ev # evs) p = run evs (step ev p)"

text \<open>
  The module body: it runs only when the file is executed directly
  (\<open>import.meta.url.endsWith('auth-server.js')\<close>); \<open>if (credentialsPath)\<close> is false for
  \<open>undefined\<close> and for the empty string.
\<close>

definition mainModule :: "bool \<Rightarrow> string list \<Rightarrow> environment \<Rightarrow> process" where
  "mainModule executedDirectly argv env =
     (if \<not> executedDirectly then initialProcess
      else case parseAuthServerArgs argv of
             Inl (msg, code) \<Rightarrow> processExit code (emit [ConsoleError msg] initialProcess)
           | Inr credentialsPath \<Rightarrow>
               runAuthServer env
                 (case credentialsPath of
                    None \<Rightarrow> initialProcess
                  | Some path \<Rightarrow>
                      if path \<noteq> [] then emit [SetCredentialsPath path] initialProcess
                      else initialProcess))"

section \<open>The AuthServer session (./auth/server.js)\<close>

text \<open>
  Modelled from the spec: the \<open>status\<close> of an AuthSession (section 3). The class
  AuthServer is in \<open>./auth/server.js\<close>, which is not among the sources; every definition
  of this section is written from sections 3 to 5 of the specification.
\<close>

datatype status = NotStarted | TokenAlreadyValid | Listening | ExchangePending | Completed | Failed

text \<open>Modelled from the spec: AuthSession, "the single attempt's state" (section 3).\<close>

record AuthSession =
  status :: status
  boundPort :: "nat option"
  completedSuccessfully :: bool
  errorDetail :: "string option"

text \<open>
  Modelled from the spec: the AuthServer of \<open>./auth/server.js\<close>, as one AuthSession
  together with what it did to its collaborators: whether \<open>stop()\<close> was called, the
  codes passed to OAuthClient's \<open>exchangeCode\<close> in order, the number of calls of
  TokenStore's \<open>persist\<close>, and whether the browser was opened.
\<close>

record AuthServer = AuthSession +
  stopped :: bool
  exchangeCodeCalls :: "string list"
  persistCalls :: nat
  browserOpened :: bool

text \<open>Modelled from the spec: the session before \<open>start\<close>, in status NotStarted.\<close>

definition newSession :: AuthServer where
  "newSession =
     \<lparr>status = NotStarted, boundPort = None, completedSuccessfully = False, errorDetail = None,
      stopped = False, exchangeCodeCalls = [], persistCalls = 0, browserOpened = False\<rparr>"

text \<open>Modelled from the spec: the two failures of section 7 that reach the caller of
  \<open>start\<close> or come back from TokenStore.\<close>

datatype authError = AlreadyStarted | StorageError

text \<open>Modelled from the spec: PortCandidate, "an ordered sequence of fixed port numbers
  (e.g. 3000..3004) tried in ascending order".\<close>

definition portCandidates :: "nat list" where
  "portCandidates = [3000, 3001, 3002, 3003, 3004]"

text \<open>
  Modelled from the spec: \<open>start(openBrowser)\<close> of section 4.1. \<open>hasValidCredential\<close> is
  what TokenStore answers (a StorageError counts as no valid credential), \<open>portsInUse\<close>
  the ports on which a bind fails. A second \<open>start\<close> fails with AlreadyStarted; a stopped
  session is terminal and is not started either.
\<close>

definition start ::
    "bool \<Rightarrow> authError + bool \<Rightarrow> nat list \<Rightarrow> AuthServer \<Rightarrow> (authError + bool) \<times> AuthServer" where
  "start openBrowser hasValidCredential portsInUse s =
     (if status s \<noteq> NotStarted \<or> stopped s then (Inl AlreadyStarted, s)
      else if hasValidCredential = Inr True
      then (Inr True, s\<lparr>status := TokenAlreadyValid, completedSuccessfully := True\<rparr>)
      else case find (\<lambda>port. port \<notin> set portsInUse) portCandidates of
             None \<Rightarrow>
               (Inr False, s\<lparr>status := Failed, completedSuccessfully := False,
                              errorDetail := Some ''AllPortsExhausted''\<rparr>)
           | Some port \<Rightarrow>
               (Inr True, s\<lparr>status := Listening, boundPort := Some port,
                             browserOpened := openBrowser\<rparr>))"

text \<open>
  Modelled from the spec: the CallbackListener of section 4.2 on one request
  \<open>GET path?code=..&error=..\<close>. Without a listener no request arrives. Another path
  leaves the session alone. The callback is taken only while Listening: a later one is
  answered and nothing else. An \<open>error\<close> parameter is ProviderDenied, neither parameter
  MalformedCallback; both end the session Failed with the listener closed. A \<open>code\<close>
  moves the session to ExchangePending and calls \<open>exchangeCode\<close>.
\<close>

definition handleRequest ::
    "string \<Rightarrow> string option \<Rightarrow> string option \<Rightarrow> AuthServer \<Rightarrow> AuthServer" where
  "handleRequest path code err s =
     (if boundPort s = None then s
      else if path \<noteq> ''/oauth2callback'' then s
      else if status s \<noteq> Listening then s
      else case err of
             Some e \<Rightarrow>
               s\<lparr>status := Failed, boundPort := None, errorDetail := Some ''ProviderDenied''\<rparr>
           | None \<Rightarrow>
              (case code of
                 Some c \<Rightarrow>
                   s\<lparr>status := ExchangePending, exchangeCodeCalls := exchangeCodeCalls s @ [c]\<rparr>
               | None \<Rightarrow>
                   s\<lparr>status := Failed, boundPort := None,
                     errorDetail := Some ''MalformedCallback''\<rparr>))"

text \<open>
  Modelled from the spec: section 4.3, the pending \<open>exchangeCode\<close> call settles
  (\<open>exchangeOk\<close>), and on success \<open>persist\<close> is called (\<open>persistOk\<close>; a StorageError is
  fatal). After \<open>stop()\<close> the completion is dropped and the session stays as it is.
\<close>

definition exchangeSettled :: "bool \<Rightarrow> bool \<Rightarrow> AuthServer \<Rightarrow> AuthServer" where
  "exchangeSettled exchangeOk persistOk s =
     (if status s \<noteq> ExchangePending \<or> stopped s then s
      else if exchangeOk then
        (if persistOk
         then s\<lparr>status := Completed, boundPort := None, completedSuccessfully := True,
                persistCalls := persistCalls s + 1\<rparr>
         else s\<lparr>status := Failed, boundPort := None, completedSuccessfully := False,
                errorDetail := Some ''StorageError'', persistCalls := persistCalls s + 1\<rparr>)
      else s\<lparr>status := Failed, boundPort := None, completedSuccessfully := False,
             errorDetail := Some ''ExchangeError''\<rparr>)"

text \<open>
  Modelled from the spec: \<open>stop()\<close> of section 4.1 closes the listener in every state,
  changes neither the status nor the flag, and makes the session terminal.
\<close>

definition stop :: "AuthServer \<Rightarrow> AuthServer" where
  "stop s = s\<lparr>boundPort := None, stopped := True\<rparr>"

text \<open>
  Modelled from the spec: what can happen to a session, one operation at a time (section
  5 asks that callbacks be serialised): a call of \<open>start\<close> with what TokenStore answers
  and the ports in use, a request on the listener, the pending exchange settling, a call
  of \<open>stop\<close>.
\<close>

datatype serverEvent =
    Start bool "authError + bool" "nat list"
  | Request string "string option" "string option"
  | ExchangeSettled bool bool
  | Stop

text \<open>Modelled from the spec: one operation on the session, and a sequence of them from
  left to right.\<close>

fun serverStep :: "serverEvent \<Rightarrow> AuthServer \<Rightarrow> AuthServer" where
  "serverStep (Start openBrowser hasValidCredential portsInUse) s =
     snd (start openBrowser hasValidCredential portsInUse s)"
| "serverStep (Request path code err) s = handleRequest path code err s"
| "serverStep (ExchangeSettled exchangeOk persistOk) s = exchangeSettled exchangeOk persistOk s"
| "serverStep Stop s = stop s"

fun serverRun :: "serverEvent list \<Rightarrow> AuthServer \<Rightarrow> AuthServer" where
  "serverRun [] s = s"
| "serverRun (ev # evs) s = serverRun evs (serverStep ev s)"

text \<open>
  Modelled from the spec: what the orchestrator sees of \<open>await authServer.start(true)\<close>,
  the boolean and the flag \<open>completedSuccessfully\<close> read after it, or the AlreadyStarted
  failure as a thrown error.
\<close>

definition startOutcome :: "(authError + bool) \<times> AuthServer \<Rightarrow> (bool \<times> bool) result" where
  "startOutcome r =
     (case fst r of
        Inl e \<Rightarrow> Throws (Some ''AlreadyStarted'')
      | Inr success \<Rightarrow> Returns (success, completedSuccessfully (snd r)))"

section \<open>Invariants used in the proofs\<close>

text \<open>
  Once the poll and the SIGINT handler are installed, the handler stays installed, the
  \<open>catch\<close> block is not among the pending continuations, and the process has not ended
  or has ended with code 0.
\<close>

definition waitingInv :: "process \<Rightarrow> bool" where
  "waitingInv p \<longleftrightarrow>
     sigintHandler p \<and> CatchBlock \<notin> set (awaiting p)
     \<and> (ended p = None \<or> ended p = Some (Exit 0))"

text \<open>
  What holds of every session reached from \<open>newSession\<close>: the flag is set exactly in the
  two states of success, no exchange was requested before the callback was taken, and at
  most one was requested at all.
\<close>

definition sessionInv :: "AuthServer \<Rightarrow> bool" where
  "sessionInv s \<longleftrightarrow>
     (completedSuccessfully s \<longleftrightarrow> status s = Completed \<or> status s = TokenAlreadyValid)
     \<and> (status s = NotStarted \<or> status s = Listening \<longrightarrow> exchangeCodeCalls s = [])
     \<and> length (exchangeCodeCalls s) \<le> 1"

section \<open>Properties of the parser\<close>

text \<open>The loop over the index reads the arguments from position \<open>i\<close> on.\<close>

lemma parseLoop_parseRest: "parseLoop args i cp = parseRest (drop i args) cp"
proof (induction args i cp rule: parseLoop.induct)
  case (1 args i cp)
  show ?case
  proof (cases "i < length args")
    case False
    then show ?thesis by (simp add: parseLoop.simps [of args i cp])
  next
    case True
    note i = this
    show ?thesis
    proof (cases "Suc i < length args")
      case False
      with i have "drop i args = [args ! i]"
        by (metis Cons_nth_drop_Suc drop_all not_less)
      with i False show ?thesis
        using "1.IH"(2) by (simp add: parseLoop.simps [of args i cp] parseLoop.simps [of args "Suc i" cp])
    next
      case True
      with i have d: "drop i args = args ! i # args ! Suc i # drop (Suc (Suc i)) args"
        by (simp add: Cons_nth_drop_Suc)
      from True have d2: "drop (Suc i) args = args ! Suc i # drop (Suc (Suc i)) args"
        by (simp add: Cons_nth_drop_Suc)
      show ?thesis
        using i True "1.IH"
        by (simp add: parseLoop.simps [of args i cp] d d2)
    qed
  qed
qed


lemma startsWith_option [simp]: "startsWith ''--credentials-file'' ''--''"
  by (simp add: startsWith_def)

lemma parseRest_skip1: "a \<noteq> ''--credentials-file'' \<Longrightarrow> parseRest (a # xs) cp = parseRest xs cp"
  by (cases xs) simp_all

lemma parseRest_requires_value:
  "i < length args \<Longrightarrow> args ! i = ''--credentials-file'' \<Longrightarrow>
   Suc i = length args \<or> startsWith (args ! Suc i) ''--'' \<Longrightarrow>
   parseRest args cp = Inl (''Option --credentials-file requires a value'', 1)"
proof (induction args cp arbitrary: i rule: parseRest.induct)
  case (1 cp)
  then show ?case by simp
next
  case (2 arg cp)
  then show ?case by simp
next
  case (3 arg nxt rest cp)
  show ?case
  proof (cases i)
    case 0
    with 3 show ?thesis by simp
  next
    case (Suc j)
    note ij = this
    show ?thesis
    proof (cases "arg = ''--credentials-file''")
      case False
      with 3 ij show ?thesis by simp
    next
      case True
      show ?thesis
      proof (cases "startsWith nxt ''--''")
        case True
        with \<open>arg = ''--credentials-file''\<close> show ?thesis by simp
      next
        case False
        with 3(4) ij have "j \<noteq> 0" by (cases j) auto
        then obtain k where jk: "j = Suc k" by (cases j) auto
        from 3(1) [of k] 3(3-5) ij jk True False show ?thesis by simp
      qed
    qed
  qed
qed

lemma parseRest_accepted:
  "parseRest args cp = Inr r \<Longrightarrow> r = cp \<or> (\<exists>p. r = Some p \<and> \<not> startsWith p ''--'')"
  by (induction args cp rule: parseRest.induct) (auto split: if_splits)

lemma parseRest_no_option:
  "''--credentials-file'' \<notin> set args \<Longrightarrow> parseRest args cp = Inr cp"
  by (induction args cp rule: parseRest.induct) auto

lemma parseRest_append:
  "everyOptionHasValue pre \<Longrightarrow>
   \<exists>r. parseRest pre cp = Inr r \<and> (\<forall>ys. parseRest (pre @ ys) cp = parseRest ys r)"
proof (induction pre cp rule: parseRest.induct)
  case (1 cp)
  then show ?case by simp
next
  case (2 arg cp)
  then show ?case by (simp add: parseRest_skip1)
next
  case (3 arg nxt rest cp)
  show ?case
  proof (cases "arg = ''--credentials-file''")
    case True
    with 3(3) have v: "\<not> startsWith nxt ''--''" by simp
    from 3(3) have "everyOptionHasValue rest" by (cases rest) (auto split: if_splits)
    with 3(1) True v show ?thesis by simp
  next
    case False
    with 3 show ?thesis by simp
  qed
qed

lemma parseRest_ignores:
  "x \<noteq> ''--credentials-file'' \<Longrightarrow> pre = [] \<or> last pre \<noteq> ''--credentials-file'' \<Longrightarrow>
   parseRest (pre @ x # post) cp = parseRest (pre @ post) cp"
proof (induction pre cp rule: parseRest.induct)
  case (1 cp)
  then show ?case by (simp add: parseRest_skip1)
next
  case (2 arg cp)
  then show ?case by (simp add: parseRest_skip1)
next
  case (3 arg nxt rest cp)
  then show ?case by (auto split: if_splits)
qed

text \<open>The parser returns, rather than exits, exactly on the lists where every option has its
  value.\<close>

lemma parseRest_accepts_iff:
  "(\<exists>r. parseRest args cp = Inr r) \<longleftrightarrow> everyOptionHasValue args"
proof (induction args cp rule: parseRest.induct)
  case (1 cp)
  then show ?case by simp
next
  case (2 arg cp)
  then show ?case by simp
next
  case (3 arg nxt rest cp)
  show ?case
  proof (cases "arg = ''--credentials-file''")
    case False
    with 3 show ?thesis by simp
  next
    case True
    show ?thesis
    proof (cases "startsWith nxt ''--''")
      case True
      with \<open>arg = ''--credentials-file''\<close> show ?thesis by simp
    next
      case False
      then have n: "nxt \<noteq> ''--credentials-file''" by auto
      have "everyOptionHasValue (nxt # rest) = everyOptionHasValue rest"
        using n by (cases rest) simp_all
      with 3(1) True False show ?thesis by simp
    qed
  qed
qed

lemma parseAuthServerArgs_parseRest:
  "parseAuthServerArgs argv = parseRest (drop 2 argv) None"
  by (simp add: parseAuthServerArgs_def parseLoop_parseRest)

lemma parseAuthServerArgs_accepts_iff:
  "(\<exists>r. parseAuthServerArgs (node # script # args) = Inr r) \<longleftrightarrow> everyOptionHasValue args"
  by (simp add: parseAuthServerArgs_parseRest parseRest_accepts_iff)

text \<open>
  Claim C9. If \<open>--credentials-file\<close> is the last command-line argument, or the argument
  after it starts with \<open>--\<close>, the process prints
  \<open>Option --credentials-file requires a value\<close> to stderr and exits with code 1, and
  nothing else has run: the OAuth client is not initialised, no AuthServer is built.
  Hence a credentials path that the parser returns never starts with \<open>--\<close>.
\<close>
theorem credentials_file_requires_value:
  "(i < length args \<and> args ! i = ''--credentials-file''
      \<and> (Suc i = length args \<or> startsWith (args ! Suc i) ''--'')
    \<longrightarrow> parseAuthServerArgs (node # script # args)
          = Inl (''Option --credentials-file requires a value'', 1)
        \<and> mainModule True (node # script # args) env
          = \<lparr>trace = [ConsoleError ''Option --credentials-file requires a value'', ProcessExit 1],
             ended = Some (Exit 1), pollInterval = None, sigintHandler = False, awaiting = []\<rparr>)
   \<and> (parseAuthServerArgs argv = Inr (Some path) \<longrightarrow> \<not> startsWith path ''--'')"
proof (intro conjI impI)
  assume h: "i < length args \<and> args ! i = ''--credentials-file''
      \<and> (Suc i = length args \<or> startsWith (args ! Suc i) ''--'')"
  then show p: "parseAuthServerArgs (node # script # args)
          = Inl (''Option --credentials-file requires a value'', 1)"
    using parseRest_requires_value [of i args None]
    by (simp add: parseAuthServerArgs_parseRest)
  show "mainModule True (node # script # args) env
          = \<lparr>trace = [ConsoleError ''Option --credentials-file requires a value'', ProcessExit 1],
             ended = Some (Exit 1), pollInterval = None, sigintHandler = False, awaiting = []\<rparr>"
    by (simp add: mainModule_def p processExit_def emit_def initialProcess_def)
next
  assume "parseAuthServerArgs argv = Inr (Some path)"
  then have "parseRest (drop 2 argv) None = Inr (Some path)"
    by (simp add: parseAuthServerArgs_parseRest)
  from parseRest_accepted [OF this] show "\<not> startsWith path ''--''"
    by simp
qed

text \<open>The option as the last argument, after an unrelated one; and an accepted path.\<close>

theorem credentials_file_requires_value_witness:
  "parseAuthServerArgs [''node'', ''auth-server.js'', ''--port'', ''--credentials-file'']
     = Inl (''Option --credentials-file requires a value'', 1)
   \<and> ended (mainModule True [''node'', ''auth-server.js'', ''--port'', ''--credentials-file'']
        \<lparr>initializeOAuth2Client = Returns (), newAuthServer = Returns (),
         authServerStart = Returns (True, False)\<rparr>) = Some (Exit 1)
   \<and> parseAuthServerArgs [''node'', ''auth-server.js'', ''--credentials-file'', ''creds.json'']
     = Inr (Some ''creds.json'')
   \<and> \<not> startsWith ''creds.json'' ''--''"
proof -
  have a: "parseAuthServerArgs [''node'', ''auth-server.js'', ''--credentials-file'', ''creds.json'']
     = Inr (Some ''creds.json'')"
    by (simp add: parseAuthServerArgs_def parseLoop.simps startsWith_def)
  show ?thesis
    using a credentials_file_requires_value [of 1 "[''--port'', ''--credentials-file'']"
       "''node''" "''auth-server.js''"
       "\<lparr>initializeOAuth2Client = Returns (), newAuthServer = Returns (),
         authServerStart = Returns (True, False)\<rparr>"
       "[''node'', ''auth-server.js'', ''--credentials-file'', ''creds.json'']" "''creds.json''"]
    by simp
qed

section \<open>Properties of the orchestrator\<close>

lemma step_ended: "ended p \<noteq> None \<Longrightarrow> step ev p = p"
  by (simp add: step_def)

lemma run_ended: "ended p \<noteq> None \<Longrightarrow> run evs p = p"
  by (induction evs arbitrary: p) (simp_all add: step_ended)

lemma run_append: "run (evs @ evs') p = run evs' (run evs p)"
  by (induction evs arbitrary: p) simp_all

lemma step_Tick_False: "step (Tick False) p = p"
  by (simp add: step_def)

lemma run_Tick_False: "run (replicate n (Tick False)) p = p"
  by (induction n) (simp_all add: step_Tick_False)

lemma runAuthServer_waiting:
  "initializeOAuth2Client env = Returns () \<Longrightarrow> newAuthServer env = Returns () \<Longrightarrow>
   authServerStart env = Returns (True, False) \<Longrightarrow>
   runAuthServer env p =
     p\<lparr>trace := trace p @ [InitializeOAuth2Client, NewAuthServer, AuthServerStart True,
               StderrWrite startedMessage, SetInterval 1000, OnSIGINT],
       pollInterval := Some 1000, sigintHandler := True\<rparr>"
  by (simp add: runAuthServer_def emit_def)

lemma runAuthServer_completed:
  "initializeOAuth2Client env = Returns () \<Longrightarrow> newAuthServer env = Returns () \<Longrightarrow>
   authServerStart env = Returns (success, True) \<Longrightarrow>
   runAuthServer env p =
     p\<lparr>trace := trace p @ [InitializeOAuth2Client, NewAuthServer, AuthServerStart True,
               StderrWrite successMessage, ProcessExit 0],
       ended := Some (Exit 0)\<rparr>"
  by (simp add: runAuthServer_def emit_def processExit_def)

lemma runAuthServer_failed:
  "initializeOAuth2Client env = Returns () \<Longrightarrow> newAuthServer env = Returns () \<Longrightarrow>
   authServerStart env = Returns (False, False) \<Longrightarrow>
   runAuthServer env p =
     p\<lparr>trace := trace p @ [InitializeOAuth2Client, NewAuthServer, AuthServerStart True,
               StderrWrite failedMessage, ProcessExit 1],
       ended := Some (Exit 1)\<rparr>"
  by (simp add: runAuthServer_def emit_def processExit_def)

lemma runAuthServer_trace:
  "\<exists>rest. trace (runAuthServer env p) = trace p @ InitializeOAuth2Client # rest"
  by (auto simp: runAuthServer_def emit_def processExit_def catchBlock_def Let_def
           split: result.splits)

lemma set_removeNth: "set (removeNth n xs) \<subseteq> set xs"
  by (auto simp: removeNth_def dest: in_set_takeD in_set_dropD)

lemma step_waitingInv: "waitingInv p \<Longrightarrow> waitingInv (step ev p)"
proof (cases "ended p = None")
  case False
  assume "waitingInv p"
  with False show ?thesis by (simp add: step_ended)
next
  case True
  assume w: "waitingInv p"
  show ?thesis
  proof (cases ev)
    case (Tick flag)
    with w True show ?thesis by (simp add: step_def waitingInv_def emit_def)
  next
    case SIGINT
    with w True show ?thesis by (simp add: step_def waitingInv_def emit_def)
  next
    case (StopSettled n)
    show ?thesis
    proof (cases "n < length (awaiting p)")
      case False
      with w True StopSettled show ?thesis by (simp add: step_def)
    next
      case nl: True
      then have "awaiting p ! n \<in> set (awaiting p)" by simp
      with w have k: "awaiting p ! n \<noteq> CatchBlock" by (auto simp: waitingInv_def)
      from w set_removeNth [of n "awaiting p"] have "CatchBlock \<notin> set (removeNth n (awaiting p))"
        by (auto simp: waitingInv_def)
      with w True StopSettled nl k show ?thesis
        by (cases "awaiting p ! n") (simp_all add: step_def resume_def processExit_def emit_def waitingInv_def)
    qed
  qed
qed

lemma run_waitingInv: "waitingInv p \<Longrightarrow> waitingInv (run evs p)"
  by (induction evs arbitrary: p) (simp_all add: step_waitingInv)

lemma step_trace: "\<exists>rest. trace (step ev p) = trace p @ rest"
  by (cases ev; cases "ended p = None")
     (auto simp: step_def emit_def resume_def processExit_def split: continuation.splits)

lemma run_trace: "\<exists>rest. trace (run evs p) = trace p @ rest"
proof (induction evs arbitrary: p)
  case Nil
  then show ?case by simp
next
  case (Cons ev evs)
  from step_trace [of ev p] obtain r1 where "trace (step ev p) = trace p @ r1" by blast
  moreover from Cons [of "step ev p"] obtain r2
    where "trace (run evs (step ev p)) = trace (step ev p) @ r2" by blast
  ultimately show ?case by simp
qed

lemma waitingInv_start:
  "initializeOAuth2Client env = Returns () \<Longrightarrow> newAuthServer env = Returns () \<Longrightarrow>
   authServerStart env = Returns (True, False) \<Longrightarrow>
   waitingInv (runAuthServer env initialProcess)"
  by (simp add: runAuthServer_waiting waitingInv_def initialProcess_def)

lemma runAuthServer_init_throws:
  "initializeOAuth2Client env = Throws e \<Longrightarrow>
   ended (runAuthServer env p) = Some (Exit 1)"
  by (simp add: runAuthServer_def catchBlock_def processExit_def emit_def)

lemma runAuthServer_new_throws:
  "initializeOAuth2Client env = Returns () \<Longrightarrow> newAuthServer env = Throws e \<Longrightarrow>
   ended (runAuthServer env p) = Some (Exit 1)"
  by (simp add: runAuthServer_def catchBlock_def processExit_def emit_def)

lemma runAuthServer_start_throws:
  "initializeOAuth2Client env = Returns () \<Longrightarrow> newAuthServer env = Returns () \<Longrightarrow>
   authServerStart env = Throws e \<Longrightarrow>
   runAuthServer env p =
     p\<lparr>trace := trace p @ [InitializeOAuth2Client, NewAuthServer, AuthServerStart True,
               StderrWrite (''Authentication error: '' @ errorMessage e @ [CHR 0x0A]),
               AuthServerStop],
       awaiting := awaiting p @ [CatchBlock]\<rparr>"
  by (simp add: runAuthServer_def catchBlock_def emit_def)

text \<open>
  Claim C1. The process exits with code 0 when authentication succeeds: at once when the
  flag \<open>authCompletedSuccessfully\<close> is true after \<open>start\<close>, and, when \<open>start\<close>
  returned true with the flag still false, after the poll has read the flag true and the
  awaited \<open>stop()\<close> has returned; in that second case no sequence of events ends the
  process otherwise than with code 0. It exits with code 1 when \<open>start\<close> returns false
  with the flag false, when \<open>initializeOAuth2Client\<close> or the constructor throws, and,
  when \<open>start\<close> throws, after the \<open>stop()\<close> awaited in the \<open>catch\<close> block has returned.
\<close>
theorem exit_code_by_outcome:
  "(initializeOAuth2Client env = Returns () \<and> newAuthServer env = Returns ()
      \<and> authServerStart env = Returns (success, True)
    \<longrightarrow> ended (run evs (runAuthServer env initialProcess)) = Some (Exit 0))
   \<and> (initializeOAuth2Client env = Returns () \<and> newAuthServer env = Returns ()
      \<and> authServerStart env = Returns (True, False)
    \<longrightarrow> ended (run (replicate n (Tick False) @ Tick True # StopSettled 0 # evs)
                 (runAuthServer env initialProcess)) = Some (Exit 0)
        \<and> (ended (run evs (runAuthServer env initialProcess)) = None
           \<or> ended (run evs (runAuthServer env initialProcess)) = Some (Exit 0)))
   \<and> (initializeOAuth2Client env = Returns () \<and> newAuthServer env = Returns ()
      \<and> authServerStart env = Returns (False, False)
    \<longrightarrow> ended (run evs (runAuthServer env initialProcess)) = Some (Exit 1))
   \<and> (initializeOAuth2Client env = Throws e
      \<or> initializeOAuth2Client env = Returns () \<and> newAuthServer env = Throws e
    \<longrightarrow> ended (run evs (runAuthServer env initialProcess)) = Some (Exit 1))
   \<and> (initializeOAuth2Client env = Returns () \<and> newAuthServer env = Returns ()
      \<and> authServerStart env = Throws e
    \<longrightarrow> ended (run (StopSettled 0 # evs) (runAuthServer env initialProcess)) = Some (Exit 1))"
proof (intro conjI impI)
  assume "initializeOAuth2Client env = Returns () \<and> newAuthServer env = Returns ()
      \<and> authServerStart env = Returns (success, True)"
  then show "ended (run evs (runAuthServer env initialProcess)) = Some (Exit 0)"
    by (simp add: runAuthServer_completed run_ended)
next
  assume h: "initializeOAuth2Client env = Returns () \<and> newAuthServer env = Returns ()
      \<and> authServerStart env = Returns (True, False)"
  then have "ended (step (StopSettled 0) (step (Tick True) (runAuthServer env initialProcess)))
             = Some (Exit 0)"
    by (simp add: runAuthServer_waiting step_def emit_def initialProcess_def resume_def
        processExit_def removeNth_def)
  then show "ended (run (replicate n (Tick False) @ Tick True # StopSettled 0 # evs)
                 (runAuthServer env initialProcess)) = Some (Exit 0)"
    by (simp add: run_append run_Tick_False run_ended)
  from h have "waitingInv (run evs (runAuthServer env initialProcess))"
    by (simp add: waitingInv_start run_waitingInv)
  then show "ended (run evs (runAuthServer env initialProcess)) = None
           \<or> ended (run evs (runAuthServer env initialProcess)) = Some (Exit 0)"
    by (simp add: waitingInv_def)
next
  assume "initializeOAuth2Client env = Returns () \<and> newAuthServer env = Returns ()
      \<and> authServerStart env = Returns (False, False)"
  then show "ended (run evs (runAuthServer env initialProcess)) = Some (Exit 1)"
    by (simp add: runAuthServer_failed run_ended)
next
  assume "initializeOAuth2Client env = Throws e
      \<or> initializeOAuth2Client env = Returns () \<and> newAuthServer env = Throws e"
  then have "ended (runAuthServer env initialProcess) = Some (Exit 1)"
    using runAuthServer_init_throws runAuthServer_new_throws by blast
  then show "ended (run evs (runAuthServer env initialProcess)) = Some (Exit 1)"
    by (simp add: run_ended)
next
  assume "initializeOAuth2Client env = Returns () \<and> newAuthServer env = Returns ()
      \<and> authServerStart env = Throws e"
  then have "ended (step (StopSettled 0) (runAuthServer env initialProcess)) = Some (Exit 1)"
    by (simp add: runAuthServer_start_throws step_def initialProcess_def resume_def
        processExit_def removeNth_def)
  then show "ended (run (StopSettled 0 # evs) (runAuthServer env initialProcess)) = Some (Exit 1)"
    by (simp add: run_ended)
qed

text \<open>One run for each outcome.\<close>

theorem exit_code_by_outcome_witness:
  "ended (run [SIGINT, Tick True]
       (runAuthServer \<lparr>initializeOAuth2Client = Returns (), newAuthServer = Returns (),
                       authServerStart = Returns (False, True)\<rparr> initialProcess))
     = Some (Exit 0)
   \<and> ended (run (replicate 2 (Tick False) @ Tick True # StopSettled 0 # [SIGINT])
       (runAuthServer \<lparr>initializeOAuth2Client = Returns (), newAuthServer = Returns (),
                       authServerStart = Returns (True, False)\<rparr> initialProcess))
     = Some (Exit 0)
   \<and> ended (run [Tick True]
       (runAuthServer \<lparr>initializeOAuth2Client = Returns (), newAuthServer = Returns (),
                       authServerStart = Returns (False, False)\<rparr> initialProcess))
     = Some (Exit 1)
   \<and> ended (run []
       (runAuthServer \<lparr>initializeOAuth2Client = Throws (Some ''no credentials file''),
                       newAuthServer = Returns (),
                       authServerStart = Returns (True, False)\<rparr> initialProcess))
     = Some (Exit 1)
   \<and> ended (run [StopSettled 0]
       (runAuthServer \<lparr>initializeOAuth2Client = Returns (), newAuthServer = Returns (),
                       authServerStart = Throws None\<rparr> initialProcess))
     = Some (Exit 1)"
  using
    exit_code_by_outcome [where env = "\<lparr>initializeOAuth2Client = Returns (),
        newAuthServer = Returns (), authServerStart = Returns (False, True)\<rparr>"
      and success = False and evs = "[SIGINT, Tick True]"]
    exit_code_by_outcome [where env = "\<lparr>initializeOAuth2Client = Returns (),
        newAuthServer = Returns (), authServerStart = Returns (True, False)\<rparr>"
      and n = 2 and evs = "[SIGINT]"]
    exit_code_by_outcome [where env = "\<lparr>initializeOAuth2Client = Returns (),
        newAuthServer = Returns (), authServerStart = Returns (False, False)\<rparr>"
      and evs = "[Tick True]"]
    exit_code_by_outcome [where env = "\<lparr>initializeOAuth2Client = Throws (Some ''no credentials file''),
        newAuthServer = Returns (), authServerStart = Returns (True, False)\<rparr>"
      and e = "Some ''no credentials file''" and evs = "[]"]
    exit_code_by_outcome [where env = "\<lparr>initializeOAuth2Client = Returns (),
        newAuthServer = Returns (), authServerStart = Throws None\<rparr>"
      and e = None and evs = "[]"]
  by simp

text \<open>After an interrupt the timer is cleared, so later ticks do nothing; each interrupt that
  the handler takes adds one pending \<open>stop()\<close> call.\<close>

lemma step_Tick_no_poll: "pollInterval p = None \<Longrightarrow> step (Tick flag) p = p"
  by (simp add: step_def)

lemma run_Ticks_no_poll: "pollInterval p = None \<Longrightarrow> run (map Tick flags) p = p"
  by (induction flags) (simp_all add: step_Tick_no_poll)

lemma run_SIGINTs:
  "sigintHandler p \<Longrightarrow> ended p = None \<Longrightarrow>
   ended (run (replicate k SIGINT) p) = None
   \<and> sigintHandler (run (replicate k SIGINT) p)
   \<and> awaiting (run (replicate k SIGINT) p) = awaiting p @ replicate k SigintHandler
   \<and> count_list (trace (run (replicate k SIGINT) p)) AuthServerStop
       = count_list (trace p) AuthServerStop + k"
proof (induction k arbitrary: p)
  case 0
  then show ?case by simp
next
  case (Suc k)
  let ?q = "step SIGINT p"
  from Suc.prems have q: "sigintHandler ?q" "ended ?q = None"
    "awaiting ?q = awaiting p @ [SigintHandler]"
    "count_list (trace ?q) AuthServerStop = count_list (trace p) AuthServerStop + 1"
    by (simp_all add: step_def emit_def)
  from Suc.IH [OF q(1,2)] q(3,4) show ?case
    by (simp add: replicate_app_Cons_same)
qed

lemma step_StopSettled_SigintHandler:
  "ended p = None \<Longrightarrow> j < length (awaiting p) \<Longrightarrow> awaiting p ! j = SigintHandler \<Longrightarrow>
   ended (step (StopSettled j) p) = Some (Exit 0)"
  by (simp add: step_def resume_def processExit_def)

text \<open>
  The claim C2 as it stands fails when a second SIGINT arrives before the \<open>stop()\<close> of
  the first has returned: the handler is installed with \<open>process.on\<close> and runs again,
  so \<open>stop()\<close> is called twice before the exit.
\<close>
theorem second_sigint_calls_stop_again:
  "trace (run [SIGINT, SIGINT, StopSettled 0]
       (runAuthServer \<lparr>initializeOAuth2Client = Returns (), newAuthServer = Returns (),
                       authServerStart = Returns (True, False)\<rparr> initialProcess))
     = [InitializeOAuth2Client, NewAuthServer, AuthServerStart True, StderrWrite startedMessage,
        SetInterval 1000, OnSIGINT, ClearInterval, AuthServerStop, ClearInterval, AuthServerStop,
        ProcessExit 0]
   \<and> count_list (trace (run [SIGINT, SIGINT, StopSettled 0]
       (runAuthServer \<lparr>initializeOAuth2Client = Returns (), newAuthServer = Returns (),
                       authServerStart = Returns (True, False)\<rparr> initialProcess)))
       AuthServerStop = 2"
  by (simp add: runAuthServer_def step_def emit_def initialProcess_def resume_def
      processExit_def removeNth_def)

text \<open>
  However many interrupts arrive before a \<open>stop()\<close> call returns, each makes one call of
  \<open>stop()\<close>, and the process exits with code 0 as soon as one of the calls returns.
\<close>

lemma sigints_call_stop_each:
  assumes "initializeOAuth2Client env = Returns ()" and "newAuthServer env = Returns ()"
    and "authServerStart env = Returns (True, False)"
  shows "count_list (trace (run (replicate n (Tick False) @ replicate k SIGINT)
                              (runAuthServer env initialProcess))) AuthServerStop = k"
    and "j < k \<Longrightarrow>
         ended (run (replicate n (Tick False) @ replicate k SIGINT @ [StopSettled j])
                  (runAuthServer env initialProcess)) = Some (Exit 0)"
proof -
  let ?p = "runAuthServer env initialProcess"
  from assms have s: "sigintHandler ?p" "ended ?p = None" "awaiting ?p = []"
    "count_list (trace ?p) AuthServerStop = 0"
    by (simp_all add: runAuthServer_waiting initialProcess_def)
  note r = run_SIGINTs [OF s(1,2), of k]
  show "count_list (trace (run (replicate n (Tick False) @ replicate k SIGINT) ?p))
          AuthServerStop = k"
    using r s by (simp add: run_append run_Tick_False)
  assume "j < k"
  with r s have "ended (step (StopSettled j) (run (replicate k SIGINT) ?p)) = Some (Exit 0)"
    by (intro step_StopSettled_SigintHandler) simp_all
  then show "ended (run (replicate n (Tick False) @ replicate k SIGINT @ [StopSettled j]) ?p)
          = Some (Exit 0)"
    by (simp add: run_append run_Tick_False)
qed

text \<open>
  Claim C2, amended. While the orchestrator waits for the browser callback (the poll has
  only read the flag false), a SIGINT makes it clear the interval timer and call
  \<open>AuthServer.stop()\<close>; when that call has returned the process exits with code 0; and
  when no further SIGINT arrives before it returns, whatever the timer does meanwhile,
  \<open>stop()\<close> was called exactly once in the whole run.
\<close>
theorem sigint_stops_once_and_exits:
  "initializeOAuth2Client env = Returns () \<and> newAuthServer env = Returns ()
      \<and> authServerStart env = Returns (True, False)
   \<longrightarrow> run (replicate n (Tick False) @ [SIGINT]) (runAuthServer env initialProcess)
         = (runAuthServer env initialProcess)
             \<lparr>trace := trace (runAuthServer env initialProcess) @ [ClearInterval, AuthServerStop],
              pollInterval := None, awaiting := [SigintHandler]\<rparr>
       \<and> run (replicate n (Tick False) @ SIGINT # map Tick flags @ [StopSettled 0])
             (runAuthServer env initialProcess)
         = (runAuthServer env initialProcess)
             \<lparr>trace := trace (runAuthServer env initialProcess)
                        @ [ClearInterval, AuthServerStop, ProcessExit 0],
              ended := Some (Exit 0), pollInterval := None, awaiting := []\<rparr>
       \<and> count_list (trace (run (replicate n (Tick False) @ SIGINT # map Tick flags
                                   @ [StopSettled 0])
                                 (runAuthServer env initialProcess))) AuthServerStop = 1
       \<and> pollInterval (runAuthServer env initialProcess) = Some 1000"
proof (intro impI)
  assume h: "initializeOAuth2Client env = Returns () \<and> newAuthServer env = Returns ()
      \<and> authServerStart env = Returns (True, False)"
  let ?p = "runAuthServer env initialProcess"
  from h have p: "?p = \<lparr>trace = [InitializeOAuth2Client, NewAuthServer, AuthServerStart True,
               StderrWrite startedMessage, SetInterval 1000, OnSIGINT], ended = None,
               pollInterval = Some 1000, sigintHandler = True, awaiting = []\<rparr>"
    by (simp add: runAuthServer_waiting initialProcess_def)
  have a: "run (replicate n (Tick False) @ [SIGINT]) ?p
         = ?p\<lparr>trace := trace ?p @ [ClearInterval, AuthServerStop],
              pollInterval := None, awaiting := [SigintHandler]\<rparr>"
    by (simp add: run_append run_Tick_False p step_def emit_def)
  have "run (replicate n (Tick False) @ SIGINT # map Tick flags @ [StopSettled 0]) ?p
        = step (StopSettled 0) (run (map Tick flags) (run (replicate n (Tick False) @ [SIGINT]) ?p))"
    by (simp add: run_append)
  also have "\<dots> = step (StopSettled 0) (run (replicate n (Tick False) @ [SIGINT]) ?p)"
    by (simp add: a run_Ticks_no_poll)
  also have "\<dots> = ?p\<lparr>trace := trace ?p @ [ClearInterval, AuthServerStop, ProcessExit 0],
              ended := Some (Exit 0), pollInterval := None, awaiting := []\<rparr>"
    by (simp add: a) (simp add: p step_def resume_def processExit_def removeNth_def)
  finally have b: "run (replicate n (Tick False) @ SIGINT # map Tick flags @ [StopSettled 0]) ?p
        = ?p\<lparr>trace := trace ?p @ [ClearInterval, AuthServerStop, ProcessExit 0],
              ended := Some (Exit 0), pollInterval := None, awaiting := []\<rparr>" .
  have c: "count_list (trace (run (replicate n (Tick False) @ SIGINT # map Tick flags
                                   @ [StopSettled 0]) ?p)) AuthServerStop = 1"
    by (simp add: b) (simp add: p)
  have d: "pollInterval ?p = Some 1000"
    by (simp add: p)
  from a b c d show "run (replicate n (Tick False) @ [SIGINT]) ?p
         = ?p\<lparr>trace := trace ?p @ [ClearInterval, AuthServerStop],
              pollInterval := None, awaiting := [SigintHandler]\<rparr>
       \<and> run (replicate n (Tick False) @ SIGINT # map Tick flags @ [StopSettled 0]) ?p
         = ?p\<lparr>trace := trace ?p @ [ClearInterval, AuthServerStop, ProcessExit 0],
              ended := Some (Exit 0), pollInterval := None, awaiting := []\<rparr>
       \<and> count_list (trace (run (replicate n (Tick False) @ SIGINT # map Tick flags
                                   @ [StopSettled 0]) ?p)) AuthServerStop = 1
       \<and> pollInterval ?p = Some 1000"
    by blast
qed

text \<open>Three polls, the interrupt, two ticks that find the timer cleared, and \<open>stop()\<close>
  returns.\<close>

theorem sigint_stops_once_and_exits_witness:
  "trace (run (replicate 3 (Tick False) @ SIGINT # map Tick [True, False] @ [StopSettled 0])
       (runAuthServer \<lparr>initializeOAuth2Client = Returns (), newAuthServer = Returns (),
                       authServerStart = Returns (True, False)\<rparr> initialProcess))
     = [InitializeOAuth2Client, NewAuthServer, AuthServerStart True, StderrWrite startedMessage,
        SetInterval 1000, OnSIGINT, ClearInterval, AuthServerStop, ProcessExit 0]
   \<and> ended (run (replicate 3 (Tick False) @ SIGINT # map Tick [True, False] @ [StopSettled 0])
       (runAuthServer \<lparr>initializeOAuth2Client = Returns (), newAuthServer = Returns (),
                       authServerStart = Returns (True, False)\<rparr> initialProcess))
     = Some (Exit 0)"
  using sigint_stops_once_and_exits [where env = "\<lparr>initializeOAuth2Client = Returns (),
        newAuthServer = Returns (), authServerStart = Returns (True, False)\<rparr>" and n = 3
        and flags = "[True, False]"]
  by (simp add: runAuthServer_waiting initialProcess_def)

text \<open>
  Claim C3. After a \<open>start\<close> that returns true with the flag false, the orchestrator
  polls the flag with an interval timer of 1000 ms. A poll that reads false changes
  nothing. The first poll that reads true clears the timer and calls
  \<open>AuthServer.stop()\<close>; when \<open>stop()\<close> has returned, the process reports success and
  exits with code 0. Whatever happens after that poll, the trace continues with the
  \<open>stop()\<close> call, so \<open>stop()\<close> is called after the flag is seen and before any exit.
\<close>
theorem poll_observes_completion_then_stops:
  "initializeOAuth2Client env = Returns () \<and> newAuthServer env = Returns ()
      \<and> authServerStart env = Returns (True, False)
   \<longrightarrow> pollInterval (runAuthServer env initialProcess) = Some 1000
       \<and> trace (runAuthServer env initialProcess)
          = [InitializeOAuth2Client, NewAuthServer, AuthServerStart True,
             StderrWrite startedMessage, SetInterval 1000, OnSIGINT]
       \<and> run (replicate n (Tick False)) (runAuthServer env initialProcess)
          = runAuthServer env initialProcess
       \<and> run (replicate n (Tick False) @ [Tick True]) (runAuthServer env initialProcess)
          = (runAuthServer env initialProcess)
             \<lparr>trace := trace (runAuthServer env initialProcess) @ [ClearInterval, AuthServerStop],
              pollInterval := None, awaiting := [PollCallback]\<rparr>
       \<and> run (replicate n (Tick False) @ [Tick True, StopSettled 0]) (runAuthServer env initialProcess)
          = (runAuthServer env initialProcess)
             \<lparr>trace := trace (runAuthServer env initialProcess)
                        @ [ClearInterval, AuthServerStop, StderrWrite stoppedMessage, ProcessExit 0],
              ended := Some (Exit 0), pollInterval := None, awaiting := []\<rparr>
       \<and> (\<exists>rest. trace (run (replicate n (Tick False) @ Tick True # evs)
                             (runAuthServer env initialProcess))
                  = trace (runAuthServer env initialProcess) @ ClearInterval # AuthServerStop # rest)"
proof (intro impI conjI)
  assume h: "initializeOAuth2Client env = Returns () \<and> newAuthServer env = Returns ()
      \<and> authServerStart env = Returns (True, False)"
  let ?p = "runAuthServer env initialProcess"
  from h show "pollInterval ?p = Some 1000"
    by (simp add: runAuthServer_waiting)
  from h show "trace ?p = [InitializeOAuth2Client, NewAuthServer, AuthServerStart True,
             StderrWrite startedMessage, SetInterval 1000, OnSIGINT]"
    by (simp add: runAuthServer_waiting initialProcess_def)
  show "run (replicate n (Tick False)) ?p = ?p"
    by (simp add: run_Tick_False)
  from h show t: "run (replicate n (Tick False) @ [Tick True]) ?p
          = ?p\<lparr>trace := trace ?p @ [ClearInterval, AuthServerStop],
              pollInterval := None, awaiting := [PollCallback]\<rparr>"
    by (simp add: run_append run_Tick_False runAuthServer_waiting step_def emit_def
      initialProcess_def)
  from h show "run (replicate n (Tick False) @ [Tick True, StopSettled 0]) ?p
          = ?p\<lparr>trace := trace ?p
                        @ [ClearInterval, AuthServerStop, StderrWrite stoppedMessage, ProcessExit 0],
              ended := Some (Exit 0), pollInterval := None, awaiting := []\<rparr>"
    by (simp add: run_append run_Tick_False runAuthServer_waiting step_def emit_def
      initialProcess_def resume_def processExit_def removeNth_def)
  have "run (replicate n (Tick False) @ Tick True # evs) ?p
        = run evs (run (replicate n (Tick False) @ [Tick True]) ?p)"
    by (simp add: run_append)
  moreover obtain rest where "trace (run evs (run (replicate n (Tick False) @ [Tick True]) ?p))
        = trace (run (replicate n (Tick False) @ [Tick True]) ?p) @ rest"
    using run_trace by blast
  ultimately show "\<exists>rest. trace (run (replicate n (Tick False) @ Tick True # evs) ?p)
                  = trace ?p @ ClearInterval # AuthServerStop # rest"
    by (simp add: t)
qed

text \<open>Two polls read false, the third reads true.\<close>

theorem poll_observes_completion_then_stops_witness:
  "trace (run (replicate 2 (Tick False) @ [Tick True, StopSettled 0])
       (runAuthServer \<lparr>initializeOAuth2Client = Returns (), newAuthServer = Returns (),
                       authServerStart = Returns (True, False)\<rparr> initialProcess))
     = [InitializeOAuth2Client, NewAuthServer, AuthServerStart True, StderrWrite startedMessage,
        SetInterval 1000, OnSIGINT, ClearInterval, AuthServerStop,
        StderrWrite stoppedMessage, ProcessExit 0]
   \<and> ended (run (replicate 2 (Tick False) @ [Tick True, StopSettled 0])
       (runAuthServer \<lparr>initializeOAuth2Client = Returns (), newAuthServer = Returns (),
                       authServerStart = Returns (True, False)\<rparr> initialProcess))
     = Some (Exit 0)"
  using poll_observes_completion_then_stops [where env = "\<lparr>initializeOAuth2Client = Returns (),
        newAuthServer = Returns (), authServerStart = Returns (True, False)\<rparr>" and n = 2
        and evs = "[]"]
  by (simp add: runAuthServer_waiting initialProcess_def)

text \<open>
  Claim C4. When \<open>start\<close> resolves to false and the flag is false (every candidate port
  is taken), the orchestrator writes to stderr a message that names the port range
  \<open>3000-3004\<close> and exits with code 1, and does nothing else.
\<close>
theorem ports_exhausted_message_and_exit:
  "initializeOAuth2Client env = Returns () \<and> newAuthServer env = Returns ()
      \<and> authServerStart env = Returns (False, False)
   \<longrightarrow> runAuthServer env initialProcess
         = \<lparr>trace = [InitializeOAuth2Client, NewAuthServer, AuthServerStart True,
                     StderrWrite failedMessage, ProcessExit 1],
            ended = Some (Exit 1), pollInterval = None, sigintHandler = False, awaiting = []\<rparr>
       \<and> failedMessage
         = ''Authentication failed. Could not start server or validate existing tokens. Check port availability (''
           @ ''3000-3004'' @ '') and try again.'' @ [CHR 0x0A]"
  by (simp add: runAuthServer_failed initialProcess_def failedMessage_def)

theorem ports_exhausted_message_and_exit_witness:
  "trace (runAuthServer \<lparr>initializeOAuth2Client = Returns (), newAuthServer = Returns (),
                         authServerStart = Returns (False, False)\<rparr> initialProcess)
     = [InitializeOAuth2Client, NewAuthServer, AuthServerStart True,
        StderrWrite failedMessage, ProcessExit 1]
   \<and> ended (runAuthServer \<lparr>initializeOAuth2Client = Returns (), newAuthServer = Returns (),
                         authServerStart = Returns (False, False)\<rparr> initialProcess)
     = Some (Exit 1)"
  using ports_exhausted_message_and_exit [where env = "\<lparr>initializeOAuth2Client = Returns (),
        newAuthServer = Returns (), authServerStart = Returns (False, False)\<rparr>"]
  by simp

section \<open>Properties of the session\<close>

lemma sessionInv_new: "sessionInv newSession"
  by (simp add: sessionInv_def newSession_def)

lemma sessionInv_start: "sessionInv s \<Longrightarrow> sessionInv (snd (start b h ps s))"
  by (auto simp: sessionInv_def start_def split: option.splits)

lemma sessionInv_handleRequest: "sessionInv s \<Longrightarrow> sessionInv (handleRequest path code err s)"
  by (auto simp: sessionInv_def handleRequest_def split: option.splits)

lemma sessionInv_exchangeSettled: "sessionInv s \<Longrightarrow> sessionInv (exchangeSettled a b s)"
  by (auto simp: sessionInv_def exchangeSettled_def)

lemma sessionInv_stop: "sessionInv s \<Longrightarrow> sessionInv (stop s)"
  by (simp add: sessionInv_def stop_def)

lemma sessionInv_step: "sessionInv s \<Longrightarrow> sessionInv (serverStep ev s)"
  by (cases ev)
     (simp_all add: sessionInv_start sessionInv_handleRequest sessionInv_exchangeSettled
        sessionInv_stop)

lemma sessionInv_run: "sessionInv s \<Longrightarrow> sessionInv (serverRun evs s)"
  by (induction evs arbitrary: s) (simp_all add: sessionInv_step)

lemma serverRun_append: "serverRun (evs @ evs') s = serverRun evs' (serverRun evs s)"
  by (induction evs arbitrary: s) simp_all

lemma flag_kept_step:
  "sessionInv s \<Longrightarrow> completedSuccessfully s \<Longrightarrow> completedSuccessfully (serverStep ev s)"
  by (cases ev) (auto simp: sessionInv_def start_def handleRequest_def exchangeSettled_def stop_def)

lemma flag_kept_run:
  "sessionInv s \<Longrightarrow> completedSuccessfully s \<Longrightarrow> completedSuccessfully (serverRun evs s)"
  by (induction evs arbitrary: s) (simp_all add: sessionInv_step flag_kept_step)

lemma start_all_ports_in_use:
  "set portCandidates \<subseteq> set portsInUse \<Longrightarrow> hasValidCredential \<noteq> Inr True \<Longrightarrow>
   startOutcome (start openBrowser hasValidCredential portsInUse newSession)
     = Returns (False, False)"
  by (simp add: start_def startOutcome_def newSession_def portCandidates_def)

text \<open>
  Claim C7. In every session, whatever the sequence of starts, requests, exchange results
  and stops, \<open>exchangeCode\<close> is called at most once; once it has been called, a further
  callback request carrying a code leaves the session exactly as it was.
\<close>
theorem exchange_runs_at_most_once:
  "length (exchangeCodeCalls (serverRun evs newSession)) \<le> 1
   \<and> (exchangeCodeCalls (serverRun evs newSession) \<noteq> []
      \<longrightarrow> handleRequest ''/oauth2callback'' (Some code) None (serverRun evs newSession)
          = serverRun evs newSession)"
proof -
  have i: "sessionInv (serverRun evs newSession)"
    by (simp add: sessionInv_run sessionInv_new)
  then show ?thesis
    by (auto simp: sessionInv_def handleRequest_def)
qed

theorem exchange_runs_at_most_once_witness:
  "exchangeCodeCalls (serverRun [Start True (Inr False) [], Request ''/oauth2callback'' (Some ''ABC'') None,
       ExchangeSettled True True] newSession) = [''ABC'']
   \<and> handleRequest ''/oauth2callback'' (Some ''XYZ'') None
       (serverRun [Start True (Inr False) [], Request ''/oauth2callback'' (Some ''ABC'') None,
          ExchangeSettled True True] newSession)
     = serverRun [Start True (Inr False) [], Request ''/oauth2callback'' (Some ''ABC'') None,
          ExchangeSettled True True] newSession"
proof -
  have c: "exchangeCodeCalls (serverRun [Start True (Inr False) [], Request ''/oauth2callback'' (Some ''ABC'') None,
       ExchangeSettled True True] newSession) = [''ABC'']"
    by (simp add: start_def handleRequest_def exchangeSettled_def newSession_def portCandidates_def)
  with exchange_runs_at_most_once [of "[Start True (Inr False) [], Request ''/oauth2callback'' (Some ''ABC'') None,
       ExchangeSettled True True]" "''XYZ''"]
  show ?thesis by simp
qed

text \<open>
  The claim C8 as it stands fails on the short-circuit path: after \<open>start\<close> with a valid
  stored credential the flag is true and the status is TokenAlreadyValid.
\<close>
theorem flag_true_with_status_TokenAlreadyValid:
  "completedSuccessfully (serverRun [Start True (Inr True) []] newSession)
   \<and> status (serverRun [Start True (Inr True) []] newSession) \<noteq> Completed"
  by (simp add: start_def newSession_def)

text \<open>
  Claim C8, amended. In every session reached from a new one, \<open>completedSuccessfully\<close>
  implies that the status is Completed or TokenAlreadyValid; and once the flag is true,
  no further sequence of operations (\<open>stop\<close> included) makes it false.
\<close>
theorem flag_implies_terminal_success_and_is_monotonic:
  "(completedSuccessfully (serverRun evs newSession)
      \<longrightarrow> status (serverRun evs newSession) = Completed
          \<or> status (serverRun evs newSession) = TokenAlreadyValid)
   \<and> (completedSuccessfully (serverRun evs newSession)
      \<longrightarrow> completedSuccessfully (serverRun (evs @ evs') newSession))"
proof -
  have i: "sessionInv (serverRun evs newSession)"
    by (simp add: sessionInv_run sessionInv_new)
  then show ?thesis
    by (auto simp: serverRun_append flag_kept_run) (simp add: sessionInv_def)
qed

text \<open>A completed exchange, then a stop, a second start and a late exchange failure.\<close>

theorem flag_implies_terminal_success_and_is_monotonic_witness:
  "completedSuccessfully (serverRun [Start True (Inr False) [3000],
       Request ''/oauth2callback'' (Some ''ABC'') None, ExchangeSettled True True] newSession)
   \<and> status (serverRun [Start True (Inr False) [3000],
       Request ''/oauth2callback'' (Some ''ABC'') None, ExchangeSettled True True] newSession) = Completed
   \<and> completedSuccessfully (serverRun ([Start True (Inr False) [3000],
       Request ''/oauth2callback'' (Some ''ABC'') None, ExchangeSettled True True]
       @ [Stop, Start True (Inr False) [], ExchangeSettled False False]) newSession)"
proof -
  have c: "completedSuccessfully (serverRun [Start True (Inr False) [3000],
       Request ''/oauth2callback'' (Some ''ABC'') None, ExchangeSettled True True] newSession)"
    by (simp add: start_def handleRequest_def exchangeSettled_def newSession_def portCandidates_def)
  have s: "status (serverRun [Start True (Inr False) [3000],
       Request ''/oauth2callback'' (Some ''ABC'') None, ExchangeSettled True True] newSession) = Completed"
    by (simp add: start_def handleRequest_def exchangeSettled_def newSession_def portCandidates_def)
  from c s flag_implies_terminal_success_and_is_monotonic [of "[Start True (Inr False) [3000],
       Request ''/oauth2callback'' (Some ''ABC'') None, ExchangeSettled True True]"
       "[Stop, Start True (Inr False) [], ExchangeSettled False False]"]
  show ?thesis by blast
qed

section \<open>The session and the module body seen from the orchestrator\<close>

text \<open>
  Claim C5. With a valid stored credential, \<open>start(true)\<close> on a new session resolves
  to true, sets \<open>completedSuccessfully\<close>, and binds no port; the orchestrator given that
  outcome writes \<open>Authentication successful.\<close> and exits with code 0, without
  installing the poll or the SIGINT handler.
\<close>
theorem valid_credential_short_circuit:
  "fst (start True (Inr True) portsInUse newSession) = Inr True
   \<and> completedSuccessfully (snd (start True (Inr True) portsInUse newSession))
   \<and> boundPort (snd (start True (Inr True) portsInUse newSession)) = None
   \<and> status (snd (start True (Inr True) portsInUse newSession)) = TokenAlreadyValid
   \<and> (initializeOAuth2Client env = Returns () \<and> newAuthServer env = Returns ()
      \<and> authServerStart env = startOutcome (start True (Inr True) portsInUse newSession)
      \<longrightarrow> runAuthServer env initialProcess
          = \<lparr>trace = [InitializeOAuth2Client, NewAuthServer, AuthServerStart True,
                      StderrWrite (''Authentication successful.'' @ [CHR 0x0A]), ProcessExit 0],
             ended = Some (Exit 0), pollInterval = None, sigintHandler = False, awaiting = []\<rparr>)"
proof -
  have s: "start True (Inr True) portsInUse newSession
           = (Inr True, newSession\<lparr>status := TokenAlreadyValid, completedSuccessfully := True\<rparr>)"
    by (simp add: start_def newSession_def)
  show ?thesis
    by (simp add: s startOutcome_def runAuthServer_completed initialProcess_def
          successMessage_def)
       (simp add: newSession_def)
qed

theorem valid_credential_short_circuit_witness:
  "startOutcome (start True (Inr True) [3000] newSession) = Returns (True, True)
   \<and> runAuthServer \<lparr>initializeOAuth2Client = Returns (), newAuthServer = Returns (),
                     authServerStart = Returns (True, True)\<rparr> initialProcess
       = \<lparr>trace = [InitializeOAuth2Client, NewAuthServer, AuthServerStart True,
                   StderrWrite (''Authentication successful.'' @ [CHR 0x0A]), ProcessExit 0],
          ended = Some (Exit 0), pollInterval = None, sigintHandler = False, awaiting = []\<rparr>"
proof -
  have o: "startOutcome (start True (Inr True) [3000] newSession) = Returns (True, True)"
    by (simp add: startOutcome_def start_def newSession_def)
  with valid_credential_short_circuit [where portsInUse = "[3000]"
      and env = "\<lparr>initializeOAuth2Client = Returns (), newAuthServer = Returns (),
                     authServerStart = Returns (True, True)\<rparr>"]
  show ?thesis by simp
qed

text \<open>
  The claim C6 as it stands fails on three argument lists that contain
  \<open>--credentials-file\<close> followed by a value: with a second \<open>--credentials-file\<close> that
  has no value the process exits with code 1 and the path \<open>a.json\<close> is never applied; an
  empty value is parsed but not applied (\<open>if (credentialsPath)\<close>); and of two values
  only the second is applied.
\<close>
theorem credentials_file_value_not_always_applied:
  "trace (mainModule True
       [''node'', ''auth-server.js'', ''--credentials-file'', ''a.json'', ''--credentials-file'']
       \<lparr>initializeOAuth2Client = Returns (), newAuthServer = Returns (),
        authServerStart = Returns (True, True)\<rparr>)
     = [ConsoleError ''Option --credentials-file requires a value'', ProcessExit 1]
   \<and> SetCredentialsPath ''a.json'' \<notin> set (trace (mainModule True
       [''node'', ''auth-server.js'', ''--credentials-file'', ''a.json'', ''--credentials-file'']
       \<lparr>initializeOAuth2Client = Returns (), newAuthServer = Returns (),
        authServerStart = Returns (True, True)\<rparr>))
   \<and> parseAuthServerArgs [''node'', ''auth-server.js'', ''--credentials-file'', []]
     = Inr (Some [])
   \<and> trace (mainModule True [''node'', ''auth-server.js'', ''--credentials-file'', []]
       \<lparr>initializeOAuth2Client = Returns (), newAuthServer = Returns (),
        authServerStart = Returns (True, True)\<rparr>)
     = [InitializeOAuth2Client, NewAuthServer, AuthServerStart True,
        StderrWrite successMessage, ProcessExit 0]
   \<and> trace (mainModule True
       [''node'', ''auth-server.js'', ''--credentials-file'', ''a.json'',
        ''--credentials-file'', ''b.json'']
       \<lparr>initializeOAuth2Client = Returns (), newAuthServer = Returns (),
        authServerStart = Returns (True, True)\<rparr>)
     = [SetCredentialsPath ''b.json'', InitializeOAuth2Client, NewAuthServer,
        AuthServerStart True, StderrWrite successMessage, ProcessExit 0]"
  by (simp add: mainModule_def parseAuthServerArgs_def parseLoop.simps startsWith_def
      processExit_def emit_def initialProcess_def runAuthServer_def)

text \<open>
  Claim C6, amended. For every command-line argument list in which each
  \<open>--credentials-file\<close> is followed by a value (an argument that does not start with
  \<open>--\<close>) and the value \<open>v\<close> after the last \<open>--credentials-file\<close> is not empty, the
  module body calls \<open>setCredentialsPath v\<close> first and only then runs \<open>runAuthServer\<close>,
  whose first step initialises the OAuth client, before any AuthServer is built.
\<close>
theorem last_credentials_file_applied_first:
  "everyOptionHasValue pre \<and> \<not> startsWith v ''--'' \<and> ''--credentials-file'' \<notin> set post
     \<and> v \<noteq> []
   \<longrightarrow> mainModule True (node # script # pre @ ''--credentials-file'' # v # post) env
         = runAuthServer env (emit [SetCredentialsPath v] initialProcess)
       \<and> (\<exists>rest. trace (mainModule True (node # script # pre @ ''--credentials-file'' # v # post) env)
                  = SetCredentialsPath v # InitializeOAuth2Client # rest)"
proof (intro impI)
  assume h: "everyOptionHasValue pre \<and> \<not> startsWith v ''--'' \<and> ''--credentials-file'' \<notin> set post
     \<and> v \<noteq> []"
  then obtain r where "\<forall>ys. parseRest (pre @ ys) None = parseRest ys r"
    using parseRest_append [of pre None] by blast
  then have "parseRest (pre @ ''--credentials-file'' # v # post) None
             = parseRest (''--credentials-file'' # v # post) r"
    by blast
  also have "\<dots> = Inr (Some v)"
    using h by (simp add: parseRest_no_option)
  finally have p: "parseAuthServerArgs (node # script # pre @ ''--credentials-file'' # v # post)
          = Inr (Some v)"
    by (simp add: parseAuthServerArgs_parseRest)
  with h have m: "mainModule True (node # script # pre @ ''--credentials-file'' # v # post) env
         = runAuthServer env (emit [SetCredentialsPath v] initialProcess)"
    by (simp add: mainModule_def)
  from runAuthServer_trace [of env "emit [SetCredentialsPath v] initialProcess"]
  have "\<exists>rest. trace (runAuthServer env (emit [SetCredentialsPath v] initialProcess))
         = SetCredentialsPath v # InitializeOAuth2Client # rest"
    by (simp add: emit_def initialProcess_def)
  with m show "mainModule True (node # script # pre @ ''--credentials-file'' # v # post) env
         = runAuthServer env (emit [SetCredentialsPath v] initialProcess)
       \<and> (\<exists>rest. trace (mainModule True (node # script # pre @ ''--credentials-file'' # v # post) env)
                  = SetCredentialsPath v # InitializeOAuth2Client # rest)"
    by simp
qed

theorem last_credentials_file_applied_first_witness:
  "everyOptionHasValue [''--verbose'', ''--credentials-file'', ''a.json'']
   \<and> \<not> startsWith ''b.json'' ''--''
   \<and> trace (mainModule True
        [''node'', ''auth-server.js'', ''--verbose'', ''--credentials-file'', ''a.json'',
         ''--credentials-file'', ''b.json'', ''--port'']
        \<lparr>initializeOAuth2Client = Returns (), newAuthServer = Returns (),
         authServerStart = Returns (False, False)\<rparr>)
      = [SetCredentialsPath ''b.json'', InitializeOAuth2Client, NewAuthServer,
         AuthServerStart True, StderrWrite failedMessage, ProcessExit 1]"
proof -
  have h: "everyOptionHasValue [''--verbose'', ''--credentials-file'', ''a.json'']
      \<and> \<not> startsWith ''b.json'' ''--'' \<and> ''--credentials-file'' \<notin> set [''--port'']
      \<and> ''b.json'' \<noteq> []"
    by (simp add: startsWith_def)
  with last_credentials_file_applied_first [where pre = "[''--verbose'', ''--credentials-file'', ''a.json'']"
      and v = "''b.json''" and post = "[''--port'']" and node = "''node''"
      and script = "''auth-server.js''"
      and env = "\<lparr>initializeOAuth2Client = Returns (), newAuthServer = Returns (),
         authServerStart = Returns (False, False)\<rparr>"]
  have "mainModule True
        [''node'', ''auth-server.js'', ''--verbose'', ''--credentials-file'', ''a.json'',
         ''--credentials-file'', ''b.json'', ''--port'']
        \<lparr>initializeOAuth2Client = Returns (), newAuthServer = Returns (),
         authServerStart = Returns (False, False)\<rparr>
      = runAuthServer \<lparr>initializeOAuth2Client = Returns (), newAuthServer = Returns (),
         authServerStart = Returns (False, False)\<rparr> (emit [SetCredentialsPath ''b.json''] initialProcess)"
    by simp
  with h show ?thesis
    by (simp add: runAuthServer_failed emit_def initialProcess_def)
qed

text \<open>
  The claim C10 as it stands fails when the value after the last
  \<open>--credentials-file\<close> is the empty string: the parser returns it, and the module
  body, whose test \<open>if (credentialsPath)\<close> is false for it, makes no override.
\<close>
theorem empty_last_value_returned_not_applied:
  "everyOptionHasValue [''--credentials-file'', ''a.json'']
   \<and> \<not> startsWith [] ''--''
   \<and> parseAuthServerArgs
        [''node'', ''auth-server.js'', ''--credentials-file'', ''a.json'', ''--credentials-file'', []]
     = Inr (Some [])
   \<and> trace (mainModule True
        [''node'', ''auth-server.js'', ''--credentials-file'', ''a.json'', ''--credentials-file'', []]
        \<lparr>initializeOAuth2Client = Returns (), newAuthServer = Returns (),
         authServerStart = Returns (True, True)\<rparr>)
     = [InitializeOAuth2Client, NewAuthServer, AuthServerStart True,
        StderrWrite (''Authentication successful.'' @ [CHR 0x0A]), ProcessExit 0]"
  by (simp add: mainModule_def parseAuthServerArgs_def parseLoop.simps startsWith_def
      processExit_def emit_def initialProcess_def runAuthServer_def successMessage_def)

text \<open>
  Claim C10, amended. \<open>parseAuthServerArgs\<close> ignores every argument other than
  \<open>--credentials-file\<close> and its value: an argument \<open>x\<close> that is not the option and does
  not stand right after one can be deleted without changing the result, nor what the
  module body does. When the option occurs several times, each time with a value, the
  value after the last occurrence is the credentials path returned, and, when it is not
  the empty string, the one the module body passes to \<open>setCredentialsPath\<close> before it
  runs \<open>runAuthServer\<close>.
\<close>
theorem last_credentials_file_wins:
  "(x \<noteq> ''--credentials-file'' \<and> (pre = [] \<or> last pre \<noteq> ''--credentials-file'')
    \<longrightarrow> parseAuthServerArgs (node # script # pre @ x # post)
          = parseAuthServerArgs (node # script # pre @ post)
        \<and> mainModule True (node # script # pre @ x # post) env
          = mainModule True (node # script # pre @ post) env)
   \<and> (everyOptionHasValue pre \<and> \<not> startsWith v ''--'' \<and> ''--credentials-file'' \<notin> set post
    \<longrightarrow> parseAuthServerArgs (node # script # pre @ ''--credentials-file'' # v # post)
          = Inr (Some v)
        \<and> (v \<noteq> []
           \<longrightarrow> mainModule True (node # script # pre @ ''--credentials-file'' # v # post) env
               = runAuthServer env
                   \<lparr>trace = [SetCredentialsPath v], ended = None, pollInterval = None,
                    sigintHandler = False, awaiting = []\<rparr>
             \<and> (\<exists>rest. trace (mainModule True
                                 (node # script # pre @ ''--credentials-file'' # v # post) env)
                        = SetCredentialsPath v # InitializeOAuth2Client # rest)))"
proof (intro conjI impI)
  assume "x \<noteq> ''--credentials-file'' \<and> (pre = [] \<or> last pre \<noteq> ''--credentials-file'')"
  then show e: "parseAuthServerArgs (node # script # pre @ x # post)
          = parseAuthServerArgs (node # script # pre @ post)"
    by (simp add: parseAuthServerArgs_parseRest parseRest_ignores)
  show "mainModule True (node # script # pre @ x # post) env
          = mainModule True (node # script # pre @ post) env"
    by (simp only: mainModule_def e)
next
  assume h: "everyOptionHasValue pre \<and> \<not> startsWith v ''--'' \<and> ''--credentials-file'' \<notin> set post"
  then obtain r where "\<forall>ys. parseRest (pre @ ys) None = parseRest ys r"
    using parseRest_append [of pre None] by blast
  then have "parseRest (pre @ ''--credentials-file'' # v # post) None
             = parseRest (''--credentials-file'' # v # post) r"
    by blast
  also have "\<dots> = Inr (Some v)"
    using h by (simp add: parseRest_no_option)
  finally show p: "parseAuthServerArgs (node # script # pre @ ''--credentials-file'' # v # post)
          = Inr (Some v)"
    by (simp add: parseAuthServerArgs_parseRest)
  assume v: "v \<noteq> []"
  with p show m: "mainModule True (node # script # pre @ ''--credentials-file'' # v # post) env
               = runAuthServer env
                   \<lparr>trace = [SetCredentialsPath v], ended = None, pollInterval = None,
                    sigintHandler = False, awaiting = []\<rparr>"
    by (simp add: mainModule_def emit_def initialProcess_def)
  from runAuthServer_trace [of env "\<lparr>trace = [SetCredentialsPath v], ended = None,
      pollInterval = None, sigintHandler = False, awaiting = []\<rparr>"]
  show "\<exists>rest. trace (mainModule True
                                 (node # script # pre @ ''--credentials-file'' # v # post) env)
                        = SetCredentialsPath v # InitializeOAuth2Client # rest"
    by (simp add: m)
qed

text \<open>An unrelated \<open>--verbose\<close> is ignored; of two paths the second is returned and
  applied.\<close>

theorem last_credentials_file_wins_witness:
  "everyOptionHasValue [''--credentials-file'', ''a.json'', ''x'']
   \<and> parseAuthServerArgs [''node'', ''auth-server.js'', ''--credentials-file'', ''a.json'', ''--verbose'', ''x'']
     = parseAuthServerArgs [''node'', ''auth-server.js'', ''--credentials-file'', ''a.json'', ''x'']
   \<and> parseAuthServerArgs [''node'', ''auth-server.js'', ''--credentials-file'', ''a.json'', ''x'',
        ''--credentials-file'', ''b.json'', ''--verbose'']
     = Inr (Some ''b.json'')
   \<and> trace (mainModule True [''node'', ''auth-server.js'', ''--credentials-file'', ''a.json'', ''x'',
        ''--credentials-file'', ''b.json'', ''--verbose'']
        \<lparr>initializeOAuth2Client = Returns (), newAuthServer = Returns (),
         authServerStart = Returns (False, False)\<rparr>)
     = [SetCredentialsPath ''b.json'', InitializeOAuth2Client, NewAuthServer,
        AuthServerStart True, StderrWrite failedMessage, ProcessExit 1]"
proof -
  let ?env = "\<lparr>initializeOAuth2Client = Returns (), newAuthServer = Returns (),
         authServerStart = Returns (False, False)\<rparr>"
  have h: "everyOptionHasValue [''--credentials-file'', ''a.json'', ''x'']
     \<and> \<not> startsWith ''b.json'' ''--'' \<and> ''--credentials-file'' \<notin> set [''--verbose'']
     \<and> ''b.json'' \<noteq> []"
    by (simp add: startsWith_def)
  from h last_credentials_file_wins [where x = "''--verbose''"
      and pre = "[''--credentials-file'', ''a.json'', ''x'']" and node = "''node''"
      and script = "''auth-server.js''" and post = "[''--verbose'']" and v = "''b.json''"
      and env = ?env]
  have a: "parseAuthServerArgs [''node'', ''auth-server.js'', ''--credentials-file'', ''a.json'', ''x'',
        ''--credentials-file'', ''b.json'', ''--verbose''] = Inr (Some ''b.json'')"
    and b: "mainModule True [''node'', ''auth-server.js'', ''--credentials-file'', ''a.json'', ''x'',
        ''--credentials-file'', ''b.json'', ''--verbose''] ?env
      = runAuthServer ?env \<lparr>trace = [SetCredentialsPath ''b.json''], ended = None,
          pollInterval = None, sigintHandler = False, awaiting = []\<rparr>"
    by simp_all
  from last_credentials_file_wins [where x = "''--verbose''"
      and pre = "[''--credentials-file'', ''a.json'']" and node = "''node''"
      and script = "''auth-server.js''" and post = "[''x'']" and v = "''b.json''"]
  have c: "parseAuthServerArgs [''node'', ''auth-server.js'', ''--credentials-file'', ''a.json'', ''--verbose'', ''x'']
     = parseAuthServerArgs [''node'', ''auth-server.js'', ''--credentials-file'', ''a.json'', ''x'']"
    by simp
  from h a b c show ?thesis
    by (simp add: runAuthServer_failed)
qed

end
